theory Spec2Isabelle
  imports Main
begin

section \<open>The relay gateway (package gateway): a shallow embedding\<close>

text \<open>
  The Go source runs several goroutines. Each goroutine's sequential code is embedded as a
  function from what the goroutine observes (the results of the library calls it makes, the
  case a \<^verbatim>\<open>select\<close> picks) to the list of actions it performs, in program order,
  and to how it ends. A Go panic is an outcome of its own, never a value of HOL's
  unspecified \<open>xs ! i\<close>.
\<close>

subsection \<open>Go values: errors, strings, indexing\<close>

text \<open>
  A non-nil \<^verbatim>\<open>error\<close>: its message, and for a value that implements
  \<^verbatim>\<open>net.Error\<close> what \<^verbatim>\<open>Timeout()\<close> answers. The nil error is \<open>None\<close> of
  \<open>go_error option\<close>.
\<close>

datatype go_error = PlainError string | NetError string bool

fun Error_msg :: "go_error \<Rightarrow> string" where
  "Error_msg (PlainError m) = m"
| "Error_msg (NetError m t) = m"

text \<open>\<^verbatim>\<open>netErr, ok := err.(net.Error); ok && netErr.Timeout()\<close>\<close>

fun is_net_timeout :: "go_error \<Rightarrow> bool" where
  "is_net_timeout (PlainError m) = False"
| "is_net_timeout (NetError m t) = t"

text \<open>\<^verbatim>\<open>fmt.Errorf(prefix + "%w", err)\<close>: a plain error whose message is the prefix
  followed by the wrapped error's message.\<close>

definition Errorf_w :: "string \<Rightarrow> go_error \<Rightarrow> go_error" where
  "Errorf_w pre e = PlainError (pre @ Error_msg e)"

datatype panic = IndexOutOfRange nat nat

text \<open>\<^verbatim>\<open>xs[i]\<close> on a slice: in range the element, out of range a run-time panic.\<close>

definition index :: "'a list \<Rightarrow> nat \<Rightarrow> panic + 'a" where
  "index xs i = (if i < length xs then Inr (xs ! i) else Inl (IndexOutOfRange i (length xs)))"

fun HasPrefix :: "string \<Rightarrow> string \<Rightarrow> bool" where
  "HasPrefix s [] = True"
| "HasPrefix [] (p # ps) = False"
| "HasPrefix (c # s) (p # ps) = (c = p \<and> HasPrefix s ps)"

text \<open>\<^verbatim>\<open>strings.Contains(s, substr)\<close>\<close>

fun Contains :: "string \<Rightarrow> string \<Rightarrow> bool" where
  "Contains [] substr = HasPrefix [] substr"
| "Contains (c # s) substr = (HasPrefix (c # s) substr \<or> Contains s substr)"

text \<open>\<^verbatim>\<open>strings.Split(s, sep)\<close> for a separator of one character.\<close>

fun Split :: "string \<Rightarrow> char \<Rightarrow> string list" where
  "Split [] sep = [[]]"
| "Split (c # s) sep =
     (if c = sep then [] # Split s sep
      else (case Split s sep of [] \<Rightarrow> [[c]] | w # ws \<Rightarrow> (c # w) # ws))"

text \<open>How \<^verbatim>\<open>%s\<close> prints a \<^verbatim>\<open>[]string\<close>: the elements between brackets, separated
  by spaces.\<close>

fun join_sp :: "string list \<Rightarrow> string" where
  "join_sp [] = []"
| "join_sp [x] = x"
| "join_sp (x # y # ys) = x @ '' '' @ join_sp (y # ys)"

definition fmt_strings :: "string list \<Rightarrow> string" where
  "fmt_strings xs = ''['' @ join_sp xs @ '']''"

subsection \<open>Listeners, connections, certificates\<close>

text \<open>
  The dynamic type of a \<^verbatim>\<open>net.Listener\<close> value. \<^verbatim>\<open>AllocateTCP\<close> of the TURN
  client returns its own allocation type, and \<^verbatim>\<open>tls.NewListener\<close> of crypto/tls
  returns its own listener type around the inner one.
\<close>

datatype listener = TCPListener | TCPAllocation string | TLSListener listener

definition tls_NewListener :: "listener \<Rightarrow> listener" where
  "tls_NewListener inner = TLSListener inner"

text \<open>The type assertion \<^verbatim>\<open>relayConn.(*net.TCPListener)\<close>: its \<^verbatim>\<open>ok\<close>.\<close>

fun is_TCPListener :: "listener \<Rightarrow> bool" where
  "is_TCPListener TCPListener = True"
| "is_TCPListener (TCPAllocation a) = False"
| "is_TCPListener (TLSListener inner) = False"

type_synonym conn = nat
type_synonym tcp_addr = string

text \<open>The Subject fields of an x509 certificate that the gateway reads.\<close>

record certificate =
  OrganizationalUnit :: "string list"
  CommonName :: string

text \<open>
  What \<^verbatim>\<open>Accept\<close> hands back when it succeeds: the connection, whether it is a
  \<^verbatim>\<open>*tls.Conn\<close>, what its handshake will return, and the peer certificates of its
  connection state after the handshake.
\<close>

record accepted =
  conn_id :: conn
  is_tls_conn :: bool
  handshake_result :: "go_error option"
  PeerCertificates :: "certificate list"

subsection \<open>Actions\<close>

datatype action =
    LogInfo string
  | LogError string
  | LogWarn string
  | CallRegisterGatewayIdentity
  | TlsDial string string
  | ResolveTCPAddr string
  | DialTCP tcp_addr
  | NewClient "conn option"
  | ClientListen
  | ClientClose
  | AllocateTCP
  | AllocClose
  | CallExchangeRelayCert string
  | RegisterPermissionLifecycle tcp_addr
  | X509KeyPair
  | NewListener listener
  | RegisterHeartBeat
  | RegisterRelayIsActive string
  | GoAcceptLoop listener
  | CloseShutdownCh
  | GoWaitGroupWaiter
  | SetDeadline nat
  | Accept
  | ConnClose conn
  | SetConnDeadline conn nat
  | ClearConnDeadline conn
  | Handshake conn
  | WgAdd nat
  | GoHandleConnection conn
  | NewTicker nat
  | Sleep nat
  | CallGatewayHeartBeat
  | SendErrCh "go_error option"
  | TickerStop

subsection \<open>The accept loop of \<^verbatim>\<open>Listen\<close>\<close>

text \<open>
  One iteration observes either the cancellation of the context, or the closed shutdown
  channel, or (the \<^verbatim>\<open>default\<close> case) what \<^verbatim>\<open>Accept\<close> returns.
\<close>

datatype loop_event = CtxDone | ShutdownSignal | AcceptReturns "go_error + accepted"

datatype iter_outcome = Continue | Return | Panic panic

text \<open>The deadline is set under the type assertion only.\<close>

definition set_accept_deadline :: "listener \<Rightarrow> action list" where
  "set_accept_deadline relayConn = (if is_TCPListener relayConn then [SetDeadline 1] else [])"

definition accept_error_log :: "go_error \<Rightarrow> action list" where
  "accept_error_log err =
     (if is_net_timeout err then []
      else if \<not> Contains (Error_msg err) ''data contains incomplete STUN or TURN frame''
        then [LogError (''Failed to accept connection: '' @ Error_msg err)]
        else [])"

text \<open>
  The check of the peer certificate, lines 306 to 315: \<open>Inl\<close> is the panic of the index
  expression, \<open>Inr (Some m)\<close> the rejection with its log line, \<open>Inr None\<close> no objection.
\<close>

definition verify_peer :: "certificate list \<Rightarrow> panic + string option" where
  "verify_peer certs =
     (case certs of
        [] \<Rightarrow> Inr None
      | leaf # others \<Rightarrow>
          (let organizationUnit = OrganizationalUnit leaf;
               commonName = CommonName leaf
           in case index organizationUnit 0 of
                Inl p \<Rightarrow> Inl p
              | Inr ou0 \<Rightarrow>
                  if ou0 \<noteq> ''gateway-client'' \<or> commonName \<noteq> ''cloud''
                  then Inr (Some (''Client certificate verification failed. Received ''
                                  @ fmt_strings organizationUnit @ '', '' @ commonName))
                  else Inr None))"

definition handle_accepted :: "accepted \<Rightarrow> iter_outcome \<times> action list" where
  "handle_accepted c =
     (if \<not> is_tls_conn c
      then (Continue, [LogError ''Failed to convert to TLS connection'', ConnClose (conn_id c)])
      else
        (let hs = [SetConnDeadline (conn_id c) 10, Handshake (conn_id c),
                   ClearConnDeadline (conn_id c)]
         in case handshake_result c of
              Some err \<Rightarrow>
                (Continue, hs @ [LogError (''TLS handshake failed: '' @ Error_msg err),
                                 ConnClose (conn_id c)])
            | None \<Rightarrow>
                (case verify_peer (PeerCertificates c) of
                   Inl p \<Rightarrow> (Panic p, hs)
                 | Inr (Some m) \<Rightarrow> (Continue, hs @ [LogError m, ConnClose (conn_id c)])
                 | Inr None \<Rightarrow> (Continue, hs @ [WgAdd 1, GoHandleConnection (conn_id c)]))))"

fun accept_iter :: "listener \<Rightarrow> loop_event \<Rightarrow> iter_outcome \<times> action list" where
  "accept_iter relayConn CtxDone = (Return, set_accept_deadline relayConn)"
| "accept_iter relayConn ShutdownSignal = (Return, set_accept_deadline relayConn)"
| "accept_iter relayConn (AcceptReturns (Inl err)) =
     (Continue, set_accept_deadline relayConn @ [Accept] @ accept_error_log err)"
| "accept_iter relayConn (AcceptReturns (Inr c)) =
     (case handle_accepted c of
        (out, acts) \<Rightarrow> (out, set_accept_deadline relayConn @ [Accept] @ acts))"

text \<open>
  The loop over the observations of its iterations. \<open>Running\<close>: every observation is
  used up and the loop is at the top of its next iteration.
\<close>

datatype status = Running | Returned | Panicked panic

fun accept_loop :: "listener \<Rightarrow> loop_event list \<Rightarrow> status \<times> action list" where
  "accept_loop relayConn [] = (Running, [])"
| "accept_loop relayConn (ev # evs) =
     (case accept_iter relayConn ev of
        (Continue, acts) \<Rightarrow>
          (case accept_loop relayConn evs of (st, rest) \<Rightarrow> (st, acts @ rest))
      | (Return, acts) \<Rightarrow> (Returned, acts)
      | (Panic p, acts) \<Rightarrow> (Panicked p, acts))"


subsection \<open>\<^verbatim>\<open>Listen\<close>: the main goroutine\<close>

record GatewayConfig =
  TurnServerUsername :: string
  TurnServerPassword :: string
  TurnServerAddress :: string
  InfisicalStaticIp :: string
  SerialNumber :: string
  PrivateKey :: string
  Certificate :: string
  CertificateChain :: string

text \<open>The response of the certificate exchange, \<^verbatim>\<open>gatewayCert\<close>.\<close>

record cert_bundle =
  cert_SerialNumber :: string
  cert_PrivateKey :: string
  cert_Certificate :: string
  cert_CertificateChain :: string

text \<open>What the first \<^verbatim>\<open>select\<close> of the main goroutine receives, and the second.\<close>

datatype main_event = CtxCancelled | ErrChReceives "go_error option"

datatype grace_event = WaitChClosed | GraceTimerFires

text \<open>
  What \<^verbatim>\<open>Listen\<close> observes: the result of each call it makes (each is made at most
  once) and the case each of its two \<^verbatim>\<open>select\<close> statements takes.
  \<open>client_AllocateTCP\<close> gives the address of the allocation.
\<close>

record listen_env =
  client_Listen :: "go_error option"
  client_AllocateTCP :: "go_error + string"
  relayNonTlsConn_Close :: "go_error option"
  CallExchangeRelayCertV1 :: "go_error + cert_bundle"
  ResolveTCPAddr_static :: "go_error + tcp_addr"
  tls_X509KeyPair :: "go_error option"
  main_select :: main_event
  grace_select :: grace_event

text \<open>\<^verbatim>\<open>defer g.client.Close()\<close>, the only deferred call before the allocation.\<close>

definition deferred_client :: "action list" where
  "deferred_client = [ClientClose]"

text \<open>
  The deferred calls once the allocation exists, last registered first: the close of the
  allocation (its error is logged), then the close of the client.
\<close>

definition deferred_all :: "listen_env \<Rightarrow> action list" where
  "deferred_all env =
     AllocClose #
     (case relayNonTlsConn_Close env of
        None \<Rightarrow> []
      | Some closeErr \<Rightarrow> [LogError (''Failed to close connection: '' @ Error_msg closeErr)])
     @ deferred_client"

text \<open>Lines 226 to 236: the permission lifecycle, when a static address is configured.\<close>

definition static_ip_permissions :: "listen_env \<Rightarrow> string \<Rightarrow> go_error option \<times> action list" where
  "static_ip_permissions env static =
     (if static \<noteq> []
      then
        (let pre = [LogInfo (''Found static ip from Infisical: '' @ static
                      @ ''. Creating permission IP lifecycle''),
                    ResolveTCPAddr static]
         in case ResolveTCPAddr_static env of
              Inl err \<Rightarrow> (Some (Errorf_w ''Failed to parse infisical static ip: '' err), pre)
            | Inr peerAddr \<Rightarrow> (None, pre @ [RegisterPermissionLifecycle peerAddr]))
      else (None, []))"

text \<open>Lines 339 to 360: from the first \<^verbatim>\<open>select\<close> to the end of the grace wait.\<close>

definition shutdown_sequence :: "listen_env \<Rightarrow> go_error option \<times> action list" where
  "shutdown_sequence env =
     (let (err, t1) =
            (case main_select env of
               CtxCancelled \<Rightarrow> (None, [LogInfo ''Shutting down gateway...''])
             | ErrChReceives v \<Rightarrow> (v, []));
          t2 = [CloseShutdownCh, GoWaitGroupWaiter];
          t3 = (case grace_select env of
                  WaitChClosed \<Rightarrow> []
                | GraceTimerFires \<Rightarrow>
                    [LogWarn ''Timeout waiting for connections to close gracefully''])
      in (err, t1 @ t2 @ t3))"

definition Listen ::
  "listen_env \<Rightarrow> GatewayConfig \<Rightarrow> go_error option \<times> action list \<times> GatewayConfig" where
  "Listen env cfg =
     (case client_Listen env of
        Some err \<Rightarrow>
          (Some (Errorf_w ''Failed to listen to relay server: '' err),
           [ClientListen] @ deferred_client, cfg)
      | None \<Rightarrow>
     (let t0 = [ClientListen, LogInfo ''Connected with relay'', AllocateTCP] in
      case client_AllocateTCP env of
        Inl err \<Rightarrow>
          (Some (Errorf_w ''Failed to allocate relay connection: '' err),
           t0 @ deferred_client, cfg)
      | Inr addr \<Rightarrow>
     (let t1 = t0 @ [LogInfo addr, CallExchangeRelayCert addr] in
      case CallExchangeRelayCertV1 env of
        Inl err \<Rightarrow> (Some err, t1 @ deferred_all env, cfg)
      | Inr gatewayCert \<Rightarrow>
     (let config1 = cfg
            \<lparr>SerialNumber := cert_SerialNumber gatewayCert,
             PrivateKey := cert_PrivateKey gatewayCert,
             Certificate := cert_Certificate gatewayCert,
             CertificateChain := cert_CertificateChain gatewayCert\<rparr>
      in
      case static_ip_permissions env (InfisicalStaticIp config1) of
        (Some err, t2) \<Rightarrow> (Some err, t1 @ t2 @ deferred_all env, config1)
      | (None, t2) \<Rightarrow>
     (case tls_X509KeyPair env of
        Some err \<Rightarrow>
          (Some (PlainError (''failed to parse cert: '' @ Error_msg err)),
           t1 @ t2 @ [X509KeyPair] @ deferred_all env, config1)
      | None \<Rightarrow>
     (let relayConn = tls_NewListener (TCPAllocation addr);
          t3 = [X509KeyPair, NewListener relayConn, LogInfo ''Gateway started successfully'',
                RegisterHeartBeat, RegisterRelayIsActive addr, GoAcceptLoop relayConn];
          (err, t4) = shutdown_sequence env
      in (err, t1 @ t2 @ t3 @ t4 @ deferred_all env, config1)))))))"

definition Listen_trace :: "listen_env \<Rightarrow> GatewayConfig \<Rightarrow> action list" where
  "Listen_trace env cfg = fst (snd (Listen env cfg))"

definition Listen_result :: "listen_env \<Rightarrow> GatewayConfig \<Rightarrow> go_error option" where
  "Listen_result env cfg = fst (Listen env cfg)"

subsection \<open>\<^verbatim>\<open>ConnectWithRelay\<close>\<close>

text \<open>The response of the registration, \<^verbatim>\<open>relayDetails\<close>.\<close>

record relay_details =
  relay_TurnServerAddress :: string
  relay_TurnServerUsername :: string
  relay_TurnServerPassword :: string
  relay_TurnServerRealm :: string
  relay_InfisicalStaticIp :: string

text \<open>What \<^verbatim>\<open>ConnectWithRelay\<close> observes: the result of each call it makes.\<close>

record connect_env =
  CallRegisterGatewayIdentityV1 :: "go_error + relay_details"
  tls_Dial :: "go_error + conn"
  net_ResolveTCPAddr :: "go_error + tcp_addr"
  net_DialTCP :: "go_error + conn"
  turn_NewClient :: "go_error + nat"

record Gateway =
  config :: GatewayConfig
  client :: "nat option"

text \<open>A Go call returning \<^verbatim>\<open>(value, err)\<close>: a nil value beside a non-nil error.\<close>

fun go_pair :: "go_error + 'a \<Rightarrow> 'a option \<times> go_error option" where
  "go_pair (Inl e) = (None, Some e)"
| "go_pair (Inr v) = (Some v, None)"

text \<open>
  Lines 134 to 150. \<open>err\<close> is the \<^verbatim>\<open>err\<close> of the function body, nil when this
  point is reached. The TLS branch assigns to it. In the other branch
  \<^verbatim>\<open>peerAddr, err := net.ResolveTCPAddr(...)\<close> declares a second \<^verbatim>\<open>err\<close>, local to
  the block, and \<^verbatim>\<open>conn, err = net.DialTCP(...)\<close> assigns \<^verbatim>\<open>conn\<close> of the function
  body and that local \<^verbatim>\<open>err\<close>: the \<^verbatim>\<open>err\<close> of the function body keeps its value.
  \<open>Inl\<close> is the early return of the block; \<open>Inr\<close> gives \<^verbatim>\<open>conn\<close> and \<^verbatim>\<open>err\<close> of
  the function body after the \<^verbatim>\<open>if\<close>.
\<close>

definition dial_turn_server ::
  "connect_env \<Rightarrow> string \<Rightarrow> string \<Rightarrow> string \<Rightarrow> go_error option
     \<Rightarrow> (go_error + conn option \<times> go_error option) \<times> action list" where
  "dial_turn_server env address relayAddress relayPort err =
     (if relayPort = ''5349''
      then
        (let (conn, err) = go_pair (tls_Dial env)
         in (Inr (conn, err),
             [LogInfo (''Provided relay port '' @ relayPort @ ''. Using TLS''),
              TlsDial address relayAddress]))
      else
        (let pre = [LogInfo (''Provided relay port '' @ relayPort
                      @ ''. Using non TLS connection.''),
                    ResolveTCPAddr address]
         in case net_ResolveTCPAddr env of
              Inl err_block \<Rightarrow>
                (Inl (Errorf_w ''Failed to parse turn server address: '' err_block), pre)
            | Inr peerAddr \<Rightarrow>
                (let (conn, err_block) = go_pair (net_DialTCP env)
                 in (Inr (conn, err), pre @ [DialTCP peerAddr]))))"

text \<open>Lines 173 to 182: the new configuration, a static address with no port given port 0.\<close>

definition session_config :: "relay_details \<Rightarrow> GatewayConfig" where
  "session_config relayDetails =
     \<lparr>TurnServerUsername = relay_TurnServerUsername relayDetails,
      TurnServerPassword = relay_TurnServerPassword relayDetails,
      TurnServerAddress = relay_TurnServerAddress relayDetails,
      InfisicalStaticIp =
        (if relay_InfisicalStaticIp relayDetails \<noteq> []
            \<and> \<not> Contains (relay_InfisicalStaticIp relayDetails) '':''
         then relay_InfisicalStaticIp relayDetails @ '':0''
         else relay_InfisicalStaticIp relayDetails),
      SerialNumber = [], PrivateKey = [], Certificate = [], CertificateChain = []\<rparr>"

text \<open>
  The result is \<open>Inl\<close> for a panic of the two index expressions of line 133, \<open>Inr\<close> for
  the returned error (\<open>None\<close> is nil).
\<close>

definition ConnectWithRelay ::
  "connect_env \<Rightarrow> Gateway \<Rightarrow> (panic + go_error option) \<times> action list \<times> Gateway" where
  "ConnectWithRelay env g =
     (case CallRegisterGatewayIdentityV1 env of
        Inl err \<Rightarrow> (Inr (Some err), [CallRegisterGatewayIdentity], g)
      | Inr relayDetails \<Rightarrow>
     (let address = relay_TurnServerAddress relayDetails in
      case index (Split address CHR '':'') 0 of
        Inl p \<Rightarrow> (Inl p, [CallRegisterGatewayIdentity], g)
      | Inr relayAddress \<Rightarrow>
     (case index (Split address CHR '':'') 1 of
        Inl p \<Rightarrow> (Inl p, [CallRegisterGatewayIdentity], g)
      | Inr relayPort \<Rightarrow>
     (case dial_turn_server env address relayAddress relayPort None of
        (Inl early, t) \<Rightarrow> (Inr (Some early), CallRegisterGatewayIdentity # t, g)
      | (Inr (conn, err), t) \<Rightarrow>
     (case err of
        Some e \<Rightarrow>
          (Inr (Some (Errorf_w ''Failed to connect with relay server: '' e)),
           CallRegisterGatewayIdentity # t, g)
      | None \<Rightarrow>
     (case turn_NewClient env of
        Inl e \<Rightarrow>
          (Inr (Some (Errorf_w ''Failed to create relay client: '' e)),
           CallRegisterGatewayIdentity # t @ [NewClient conn], g)
      | Inr cl \<Rightarrow>
          (Inr None, CallRegisterGatewayIdentity # t @ [NewClient conn],
           g\<lparr>config := session_config relayDetails, client := Some cl\<rparr>)))))))"

definition Connect_result :: "connect_env \<Rightarrow> Gateway \<Rightarrow> panic + go_error option" where
  "Connect_result env g = fst (ConnectWithRelay env g)"

definition Connect_trace :: "connect_env \<Rightarrow> Gateway \<Rightarrow> action list" where
  "Connect_trace env g = fst (snd (ConnectWithRelay env g))"

text \<open>The actions of a trace that dial the relay server or resolve its address.\<close>

definition dials :: "action list \<Rightarrow> action list" where
  "dials acts =
     filter (\<lambda>a. case a of TlsDial address name \<Rightarrow> True | ResolveTCPAddr address \<Rightarrow> True
                  | DialTCP peerAddr \<Rightarrow> True | _ \<Rightarrow> False) acts"

subsection \<open>\<^verbatim>\<open>registerHeartBeat\<close>: the heartbeat goroutine\<close>

text \<open>
  What the \<^verbatim>\<open>select\<close> of the loop takes: the closed \<^verbatim>\<open>done\<close> channel, or a tick
  of the ticker, with what the heartbeat call made at this tick returns.
\<close>

datatype hb_event = DoneClosed | TickerFires "go_error option"

text \<open>
  \<open>SendErrCh v\<close> is the statement \<^verbatim>\<open>errCh <- v\<close>; the channel has a buffer of one
  value, and a goroutine that finds it full waits at this statement: its run is then the
  run on the observations up to this tick. Durations are in seconds.
\<close>

fun heartbeat_loop :: "hb_event list \<Rightarrow> status \<times> action list" where
  "heartbeat_loop [] = (Running, [])"
| "heartbeat_loop (DoneClosed # evs) = (Returned, [TickerStop])"
| "heartbeat_loop (TickerFires err # evs) =
     (case heartbeat_loop evs of
        (st, rest) \<Rightarrow>
          (st, [LogInfo ''Registering heart beat'', CallGatewayHeartBeat, SendErrCh err] @ rest))"

text \<open>\<open>first\<close> is what the heartbeat call made after the initial sleep returns.\<close>

definition registerHeartBeat :: "go_error option \<Rightarrow> hb_event list \<Rightarrow> status \<times> action list" where
  "registerHeartBeat first evs =
     (case heartbeat_loop evs of
        (st, rest) \<Rightarrow>
          (st, [NewTicker 3600, Sleep 10, LogInfo ''Registering first heart beat'',
                CallGatewayHeartBeat]
               @ (case first of
                    None \<Rightarrow> []
                  | Some err \<Rightarrow> [LogError (''Failed to register heartbeat: '' @ Error_msg err)])
               @ rest))"

text \<open>The errors a trace sends on the error channel, and the nil values left out.\<close>

fun pushed_errors :: "action list \<Rightarrow> go_error list" where
  "pushed_errors [] = []"
| "pushed_errors (SendErrCh (Some e) # acts) = e # pushed_errors acts"
| "pushed_errors (a # acts) = pushed_errors acts"

text \<open>The errors of the heartbeat calls made at the ticks, until \<^verbatim>\<open>done\<close> is seen.\<close>

fun tick_failures :: "hb_event list \<Rightarrow> go_error list" where
  "tick_failures [] = []"
| "tick_failures (DoneClosed # evs) = []"
| "tick_failures (TickerFires (Some e) # evs) = e # tick_failures evs"
| "tick_failures (TickerFires None # evs) = tick_failures evs"

fun ticks_seen :: "hb_event list \<Rightarrow> nat" where
  "ticks_seen [] = 0"
| "ticks_seen (DoneClosed # evs) = 0"
| "ticks_seen (TickerFires r # evs) = Suc (ticks_seen evs)"

definition error_logs :: "action list \<Rightarrow> action list" where
  "error_logs acts = filter (\<lambda>a. case a of LogError m \<Rightarrow> True | _ \<Rightarrow> False) acts"

definition closes :: "action list \<Rightarrow> action list" where
  "closes acts = filter (\<lambda>a. case a of ConnClose k \<Rightarrow> True | _ \<Rightarrow> False) acts"

definition dispatches :: "action list \<Rightarrow> action list" where
  "dispatches acts = filter (\<lambda>a. case a of GoHandleConnection k \<Rightarrow> True | _ \<Rightarrow> False) acts"

subsection \<open>A session to run the definitions on\<close>

text \<open>
  The relay is \<open>relay.example\<close>, the allocated endpoint \<open>203.0.113.9:41000\<close>, no static
  address is configured, and every call succeeds unless the parameters say otherwise.
\<close>

definition example_listener :: listener where
  "example_listener = TLSListener (TCPAllocation ''203.0.113.9:41000'')"

definition example_conn :: "certificate list \<Rightarrow> accepted" where
  "example_conn certs =
     \<lparr>conn_id = 7, is_tls_conn = True, handshake_result = None, PeerCertificates = certs\<rparr>"

definition example_config :: GatewayConfig where
  "example_config =
     \<lparr>TurnServerUsername = ''user'', TurnServerPassword = ''secret'',
      TurnServerAddress = ''relay.example:5349'', InfisicalStaticIp = [],
      SerialNumber = [], PrivateKey = [], Certificate = [], CertificateChain = []\<rparr>"

definition example_bundle :: cert_bundle where
  "example_bundle =
     \<lparr>cert_SerialNumber = ''01'', cert_PrivateKey = ''key'', cert_Certificate = ''leaf'',
      cert_CertificateChain = ''chain''\<rparr>"

definition example_listen_env ::
  "go_error + cert_bundle \<Rightarrow> main_event \<Rightarrow> grace_event \<Rightarrow> listen_env" where
  "example_listen_env exchanged m w =
     \<lparr>client_Listen = None, client_AllocateTCP = Inr ''203.0.113.9:41000'',
      relayNonTlsConn_Close = None, CallExchangeRelayCertV1 = exchanged,
      ResolveTCPAddr_static = Inl (PlainError ''missing address''),
      tls_X509KeyPair = None, main_select = m, grace_select = w\<rparr>"

definition example_gateway :: Gateway where
  "example_gateway =
     \<lparr>config = \<lparr>TurnServerUsername = [], TurnServerPassword = [], TurnServerAddress = [],
                InfisicalStaticIp = [], SerialNumber = [], PrivateKey = [],
                Certificate = [], CertificateChain = []\<rparr>,
      client = None\<rparr>"

definition example_details :: "string \<Rightarrow> relay_details" where
  "example_details address =
     \<lparr>relay_TurnServerAddress = address, relay_TurnServerUsername = ''user'',
      relay_TurnServerPassword = ''secret'', relay_TurnServerRealm = ''infisical.org'',
      relay_InfisicalStaticIp = []\<rparr>"

definition example_connect_env ::
  "string \<Rightarrow> go_error + conn \<Rightarrow> go_error + conn \<Rightarrow> connect_env" where
  "example_connect_env address tls_result tcp_result =
     \<lparr>CallRegisterGatewayIdentityV1 = Inr (example_details address),
      tls_Dial = tls_result,
      net_ResolveTCPAddr = Inr ''198.51.100.7:3478'',
      net_DialTCP = tcp_result,
      turn_NewClient = Inr 1\<rparr>"

section \<open>Properties of the accept loop\<close>

lemma error_logs_set_accept_deadline [simp]: "error_logs (set_accept_deadline l) = []"
  by (simp add: error_logs_def set_accept_deadline_def)

lemma closes_set_accept_deadline [simp]: "closes (set_accept_deadline l) = []"
  by (simp add: closes_def set_accept_deadline_def)

lemma dispatches_set_accept_deadline [simp]: "dispatches (set_accept_deadline l) = []"
  by (simp add: dispatches_def set_accept_deadline_def)

lemma error_logs_Nil [simp]: "error_logs [] = []"
  by (simp add: error_logs_def)

lemma closes_Nil [simp]: "closes [] = []"
  by (simp add: closes_def)

lemma dispatches_Nil [simp]: "dispatches [] = []"
  by (simp add: dispatches_def)

lemma error_logs_Cons [simp]:
  "error_logs (a # acts) = (case a of LogError m \<Rightarrow> [a] | _ \<Rightarrow> []) @ error_logs acts"
  by (cases a) (simp_all add: error_logs_def)

lemma closes_Cons [simp]:
  "closes (a # acts) = (case a of ConnClose k \<Rightarrow> [a] | _ \<Rightarrow> []) @ closes acts"
  by (cases a) (simp_all add: closes_def)

lemma dispatches_Cons [simp]:
  "dispatches (a # acts) =
     (case a of GoHandleConnection k \<Rightarrow> [a] | _ \<Rightarrow> []) @ dispatches acts"
  by (cases a) (simp_all add: dispatches_def)

lemma error_logs_append [simp]: "error_logs (xs @ ys) = error_logs xs @ error_logs ys"
  by (simp add: error_logs_def)

lemma closes_append [simp]: "closes (xs @ ys) = closes xs @ closes ys"
  by (simp add: closes_def)

lemma dispatches_append [simp]: "dispatches (xs @ ys) = dispatches xs @ dispatches ys"
  by (simp add: dispatches_def)

text \<open>
  What the certificate check does hold: a connection with a leaf certificate is handed to
  the handler only when the first OrganizationalUnit entry and the CommonName are the two
  expected markers.
\<close>

lemma verify_peer_accepts_iff:
  "verify_peer (leaf # others) = Inr None \<longleftrightarrow>
     (\<exists>rest. OrganizationalUnit leaf = ''gateway-client'' # rest) \<and> CommonName leaf = ''cloud''"
  by (cases "OrganizationalUnit leaf") (auto simp: verify_peer_def index_def Let_def)

lemma dispatched_only_if_markers:
  assumes "PeerCertificates c = leaf # others"
    and "dispatches (snd (accept_iter relayConn (AcceptReturns (Inr c)))) \<noteq> []"
  shows "(\<exists>rest. OrganizationalUnit leaf = ''gateway-client'' # rest) \<and> CommonName leaf = ''cloud''"
proof -
  have "verify_peer (leaf # others) = Inr None"
    using assms
    by (auto simp: handle_accepted_def Let_def
        split: if_splits option.splits sum.splits)
  then show ?thesis by (simp only: verify_peer_accepts_iff)
qed

lemma mismatch_with_unit_rejected:
  assumes "is_tls_conn c" and "handshake_result c = None"
    and "PeerCertificates c = leaf # others"
    and "OrganizationalUnit leaf = ou0 # rest"
    and "ou0 \<noteq> ''gateway-client'' \<or> CommonName leaf \<noteq> ''cloud''"
  shows "accept_iter relayConn (AcceptReturns (Inr c)) =
     (Continue, set_accept_deadline relayConn @
        [Accept, SetConnDeadline (conn_id c) 10, Handshake (conn_id c),
         ClearConnDeadline (conn_id c),
         LogError (''Client certificate verification failed. Received ''
                   @ fmt_strings (OrganizationalUnit leaf) @ '', '' @ CommonName leaf),
         ConnClose (conn_id c)])"
  using assms by (auto simp: handle_accepted_def verify_peer_def index_def Let_def)

text \<open>
  C1. Every handshake-completed connection with a leaf certificate whose OrganizationalUnit
  or CommonName is not the expected marker should be closed with the mismatch logged, and
  never reach the handler. For a leaf certificate with no OrganizationalUnit entry at all
  the code does not close and does not log: the iteration ends in the panic of the index
  expression, before the log line and before \<^verbatim>\<open>conn.Close()\<close>.
\<close>

theorem empty_unit_certificate_panics_unclosed:
  assumes "is_tls_conn c" and "handshake_result c = None"
    and "PeerCertificates c = leaf # others" and "OrganizationalUnit leaf = []"
  shows "accept_iter relayConn (AcceptReturns (Inr c)) =
     (Panic (IndexOutOfRange 0 0),
      set_accept_deadline relayConn @
        [Accept, SetConnDeadline (conn_id c) 10, Handshake (conn_id c),
         ClearConnDeadline (conn_id c)])
    \<and> error_logs (snd (accept_iter relayConn (AcceptReturns (Inr c)))) = []
    \<and> closes (snd (accept_iter relayConn (AcceptReturns (Inr c)))) = []
    \<and> dispatches (snd (accept_iter relayConn (AcceptReturns (Inr c)))) = []"
  using assms by (simp add: handle_accepted_def verify_peer_def index_def)

theorem empty_unit_certificate_panics_unclosed_witness:
  "accept_iter example_listener
     (AcceptReturns (Inr (example_conn [\<lparr>OrganizationalUnit = [], CommonName = ''cloud''\<rparr>])))
   = (Panic (IndexOutOfRange 0 0),
      [Accept, SetConnDeadline 7 10, Handshake 7, ClearConnDeadline 7])
   \<and> closes (snd (accept_iter example_listener
       (AcceptReturns
          (Inr (example_conn [\<lparr>OrganizationalUnit = [], CommonName = ''cloud''\<rparr>]))))) = []"
  using empty_unit_certificate_panics_unclosed
    [of "example_conn [\<lparr>OrganizationalUnit = [], CommonName = ''cloud''\<rparr>]"
        "\<lparr>OrganizationalUnit = [], CommonName = ''cloud''\<rparr>" "[]" example_listener]
  by (simp add: example_conn_def example_listener_def set_accept_deadline_def)

text \<open>
  C2. A connection whose handshake completed and whose peer-certificate list is empty is
  not checked for identity attributes: the iteration goes straight from the handshake to
  the wait group and the handler goroutine, with no log line and no close.
\<close>

theorem no_certificate_is_dispatched:
  assumes "is_tls_conn c" and "handshake_result c = None" and "PeerCertificates c = []"
  shows "accept_iter relayConn (AcceptReturns (Inr c)) =
     (Continue, set_accept_deadline relayConn @
        [Accept, SetConnDeadline (conn_id c) 10, Handshake (conn_id c),
         ClearConnDeadline (conn_id c), WgAdd 1, GoHandleConnection (conn_id c)])"
  using assms by (simp add: handle_accepted_def verify_peer_def)

theorem no_certificate_is_dispatched_witness:
  "accept_iter example_listener (AcceptReturns (Inr (example_conn []))) =
     (Continue, [Accept, SetConnDeadline 7 10, Handshake 7, ClearConnDeadline 7, WgAdd 1,
        GoHandleConnection 7])"
  using no_certificate_is_dispatched [of "example_conn []" example_listener]
  by (simp add: example_conn_def example_listener_def set_accept_deadline_def)

text \<open>
  C10. The check reads \<^verbatim>\<open>organizationUnit[0]\<close> with no test of the length of the
  list. The read should be in bounds for every leaf certificate; for a certificate whose
  OrganizationalUnit list is empty it is out of range, and the check panics whatever the
  CommonName is.
\<close>

theorem empty_unit_read_out_of_bounds:
  assumes "OrganizationalUnit leaf = []"
  shows "index (OrganizationalUnit leaf) 0 = Inl (IndexOutOfRange 0 0)
    \<and> verify_peer (leaf # others) = Inl (IndexOutOfRange 0 0)"
  using assms by (simp add: verify_peer_def index_def)

theorem empty_unit_read_out_of_bounds_witness:
  "index (OrganizationalUnit \<lparr>OrganizationalUnit = [], CommonName = ''cloud''\<rparr>) 0
     = Inl (IndexOutOfRange 0 0)
   \<and> verify_peer [\<lparr>OrganizationalUnit = [], CommonName = ''cloud''\<rparr>]
     = Inl (IndexOutOfRange 0 0)"
  using empty_unit_read_out_of_bounds
    [of "\<lparr>OrganizationalUnit = [], CommonName = ''cloud''\<rparr>" "[]"]
  by simp

text \<open>An iteration whose \<^verbatim>\<open>Accept\<close> fails goes on to the next iteration.\<close>

lemma accept_loop_error_step:
  "accept_loop relayConn (AcceptReturns (Inl err) # evs) =
     (fst (accept_loop relayConn evs),
      set_accept_deadline relayConn @ [Accept] @ accept_error_log err
        @ snd (accept_loop relayConn evs))"
  by (simp add: case_prod_beta)

lemma handle_accepted_no_return: "fst (handle_accepted c) \<noteq> Return"
  by (simp add: handle_accepted_def Let_def split: option.splits sum.splits)

lemma accept_loop_returned_signal:
  "fst (accept_loop relayConn evs) = Returned \<Longrightarrow>
     CtxDone \<in> set evs \<or> ShutdownSignal \<in> set evs"
proof (induction evs)
  case Nil
  then show ?case by simp
next
  case (Cons ev evs)
  show ?case
  proof (cases "fst (accept_iter relayConn ev)")
    case Continue
    with Cons show ?thesis
      by (auto simp: case_prod_beta split: prod.splits)
  next
    case Return
    have "ev = CtxDone \<or> ev = ShutdownSignal"
    proof (cases ev)
      case (AcceptReturns r)
      with Return handle_accepted_no_return show ?thesis
        by (cases r) (auto simp: case_prod_beta)
    qed simp_all
    then show ?thesis by auto
  next
    case (Panic p)
    with Cons.prems show ?thesis
      by (auto split: prod.splits)
  qed
qed

lemma accept_loop_errors_running:
  "fst (accept_loop relayConn (map (\<lambda>err. AcceptReturns (Inl err)) errs)) = Running"
  by (induction errs) (simp_all add: case_prod_beta)

text \<open>
  What holds of the accept errors: none ends the loop. A timeout of the deadline is
  retried with no log line, an error whose message contains the incomplete STUN or TURN
  frame text is swallowed with no log line, every other accept error is logged once and
  the loop goes on; and the loop returns, by one of its two \<^verbatim>\<open>return\<close> statements,
  only when an iteration observed the cancellation or the shutdown signal.
\<close>

theorem accept_errors_are_not_fatal:
  "fst (accept_iter relayConn (AcceptReturns (Inl err))) = Continue
   \<and> accept_loop relayConn (AcceptReturns (Inl err) # evs) =
       (fst (accept_loop relayConn evs),
        snd (accept_iter relayConn (AcceptReturns (Inl err))) @ snd (accept_loop relayConn evs))
   \<and> (is_net_timeout err \<longrightarrow>
        error_logs (snd (accept_iter relayConn (AcceptReturns (Inl err)))) = [])
   \<and> (Contains (Error_msg err) ''data contains incomplete STUN or TURN frame'' \<longrightarrow>
        error_logs (snd (accept_iter relayConn (AcceptReturns (Inl err)))) = [])
   \<and> (\<not> is_net_timeout err
        \<and> \<not> Contains (Error_msg err) ''data contains incomplete STUN or TURN frame'' \<longrightarrow>
        error_logs (snd (accept_iter relayConn (AcceptReturns (Inl err))))
          = [LogError (''Failed to accept connection: '' @ Error_msg err)])
   \<and> fst (accept_loop relayConn (map (\<lambda>e. AcceptReturns (Inl e)) errs)) = Running
   \<and> (fst (accept_loop relayConn evs) = Returned \<longrightarrow>
        CtxDone \<in> set evs \<or> ShutdownSignal \<in> set evs)"
proof -
  have logs: "error_logs (snd (accept_iter relayConn (AcceptReturns (Inl err))))
      = error_logs (accept_error_log err)"
    by simp
  have a: "is_net_timeout err \<longrightarrow> error_logs (accept_error_log err) = []"
    by (simp add: accept_error_log_def)
  have b: "Contains (Error_msg err) ''data contains incomplete STUN or TURN frame'' \<longrightarrow>
      error_logs (accept_error_log err) = []"
    by (simp add: accept_error_log_def)
  have c: "\<not> is_net_timeout err
      \<and> \<not> Contains (Error_msg err) ''data contains incomplete STUN or TURN frame'' \<longrightarrow>
      error_logs (accept_error_log err)
        = [LogError (''Failed to accept connection: '' @ Error_msg err)]"
    by (simp add: accept_error_log_def)
  have d: "accept_loop relayConn (AcceptReturns (Inl err) # evs) =
       (fst (accept_loop relayConn evs),
        snd (accept_iter relayConn (AcceptReturns (Inl err))) @ snd (accept_loop relayConn evs))"
    using accept_loop_error_step [of relayConn err evs] by simp
  have e: "fst (accept_loop relayConn evs) = Returned \<longrightarrow>
        CtxDone \<in> set evs \<or> ShutdownSignal \<in> set evs"
    using accept_loop_returned_signal by blast
  have f: "fst (accept_iter relayConn (AcceptReturns (Inl err))) = Continue"
    by simp
  from a b c d e f logs accept_loop_errors_running [of relayConn errs]
  show ?thesis by (simp only: simp_thms)
qed


theorem accept_errors_are_not_fatal_witness:
  "error_logs (snd (accept_iter example_listener
      (AcceptReturns (Inl (NetError ''accept: i/o timeout'' True))))) = []
   \<and> error_logs (snd (accept_iter example_listener
      (AcceptReturns (Inl (PlainError
         ''turn: data contains incomplete STUN or TURN frame''))))) = []
   \<and> error_logs (snd (accept_iter example_listener
      (AcceptReturns (Inl (PlainError ''connection reset''))))) =
      [LogError ''Failed to accept connection: connection reset'']
   \<and> accept_loop example_listener
        [AcceptReturns (Inl (NetError ''accept: i/o timeout'' True)), ShutdownSignal]
      = (Returned, [Accept])"
  using
    accept_errors_are_not_fatal
      [of example_listener "NetError ''accept: i/o timeout'' True"
          "[ShutdownSignal]" "[]"]
    accept_errors_are_not_fatal
      [of example_listener
          "PlainError ''turn: data contains incomplete STUN or TURN frame''" "[]" "[]"]
    accept_errors_are_not_fatal
      [of example_listener "PlainError ''connection reset''" "[]" "[]"]
  by (simp add: example_listener_def set_accept_deadline_def accept_error_log_def)

text \<open>
  The whole iteration of a silent accept error: the call of \<^verbatim>\<open>Accept\<close> and nothing
  else, so no log line of any level.
\<close>

lemma silent_accept_error_trace:
  assumes "is_net_timeout err
    \<or> Contains (Error_msg err) ''data contains incomplete STUN or TURN frame''"
  shows "accept_iter relayConn (AcceptReturns (Inl err))
    = (Continue, set_accept_deadline relayConn @ [Accept])"
  using assms by (auto simp: accept_error_log_def)

lemma accept_loop_after_errors:
  "fst (accept_loop relayConn (map (\<lambda>e. AcceptReturns (Inl e)) errs @ evs))
     = fst (accept_loop relayConn evs)"
  by (induction errs) (simp_all add: case_prod_beta)

lemma handle_accepted_empty_unit:
  assumes "is_tls_conn c" and "handshake_result c = None"
    and "PeerCertificates c = leaf # others" and "OrganizationalUnit leaf = []"
  shows "fst (handle_accepted c) = Panic (IndexOutOfRange 0 0)"
  using assms by (simp add: handle_accepted_def verify_peer_def index_def)

text \<open>
  C4. The accept loop should exit only when the cancellation or the shutdown signal is
  observed. It also ends when neither is: after any number of failed accepts, an accepted
  connection whose handshake completes and whose leaf certificate has no OrganizationalUnit
  entry ends the loop in the panic of the index expression, whatever would have been
  observed afterwards.
\<close>

theorem accept_loop_ends_without_signal:
  assumes "is_tls_conn c" and "handshake_result c = None"
    and "PeerCertificates c = leaf # others" and "OrganizationalUnit leaf = []"
  shows "fst (accept_loop relayConn
            (map (\<lambda>e. AcceptReturns (Inl e)) errs @ AcceptReturns (Inr c) # evs))
         = Panicked (IndexOutOfRange 0 0)"
proof -
  have "fst (accept_loop relayConn (AcceptReturns (Inr c) # evs))
      = Panicked (IndexOutOfRange 0 0)"
    using handle_accepted_empty_unit [OF assms]
    by (cases "handle_accepted c") simp
  then show ?thesis
    by (simp only: accept_loop_after_errors)
qed

theorem accept_loop_ends_without_signal_witness:
  "accept_loop example_listener
     [AcceptReturns (Inl (NetError ''accept: i/o timeout'' True)),
      AcceptReturns (Inr (example_conn [\<lparr>OrganizationalUnit = [], CommonName = ''cloud''\<rparr>]))]
   = (Panicked (IndexOutOfRange 0 0),
      [Accept, Accept, SetConnDeadline 7 10, Handshake 7, ClearConnDeadline 7])
   \<and> CtxDone \<notin> set
       [AcceptReturns (Inl (NetError ''accept: i/o timeout'' True)),
        AcceptReturns (Inr (example_conn [\<lparr>OrganizationalUnit = [], CommonName = ''cloud''\<rparr>]))]
   \<and> ShutdownSignal \<notin> set
       [AcceptReturns (Inl (NetError ''accept: i/o timeout'' True)),
        AcceptReturns (Inr (example_conn [\<lparr>OrganizationalUnit = [], CommonName = ''cloud''\<rparr>]))]"
  using accept_loop_ends_without_signal
    [of "example_conn [\<lparr>OrganizationalUnit = [], CommonName = ''cloud''\<rparr>]"
        "\<lparr>OrganizationalUnit = [], CommonName = ''cloud''\<rparr>" "[]" example_listener
        "[NetError ''accept: i/o timeout'' True]" "[]"]
  by (simp add: example_conn_def example_listener_def set_accept_deadline_def
      accept_error_log_def handle_accepted_def verify_peer_def index_def)

section \<open>Properties of \<^verbatim>\<open>Listen\<close>\<close>

lemma count_deferred_client [simp]: "count_list deferred_client AllocClose = 0"
  by (simp add: deferred_client_def)

lemma count_deferred_all [simp]: "count_list (deferred_all env) AllocClose = 1"
  by (simp add: deferred_all_def deferred_client_def split: option.splits)

lemma count_static_ip_permissions [simp]:
  "count_list (snd (static_ip_permissions env static)) AllocClose = 0"
  by (simp add: static_ip_permissions_def Let_def split: sum.splits)

lemma count_shutdown_sequence [simp]:
  "count_list (snd (shutdown_sequence env)) AllocClose = 0"
  by (simp add: shutdown_sequence_def Let_def split: main_event.splits grace_event.splits)

text \<open>
  C7. Once the allocation exists, whichever way \<^verbatim>\<open>Listen\<close> ends (an error returned
  after the allocation, the cancellation, a value on the error channel), the trace of
  \<^verbatim>\<open>Listen\<close> closes the allocation exactly once.
\<close>

theorem allocation_closed_exactly_once:
  assumes "client_Listen env = None" and "client_AllocateTCP env = Inr addr"
  shows "count_list (Listen_trace env cfg) AllocClose = 1"
proof (cases "CallExchangeRelayCertV1 env")
  case (Inl err)
  with assms show ?thesis
    by (simp add: Listen_trace_def Listen_def)
next
  case (Inr gatewayCert)
  obtain e t2 where perm: "static_ip_permissions env (InfisicalStaticIp cfg) = (e, t2)"
    by (cases "static_ip_permissions env (InfisicalStaticIp cfg)")
  have t2: "count_list t2 AllocClose = 0"
    using count_static_ip_permissions [of env "InfisicalStaticIp cfg"] perm by simp
  show ?thesis
  proof (cases e)
    case (Some err)
    with assms Inr perm t2 show ?thesis
      by (simp add: Listen_trace_def Listen_def)
  next
    case None
    show ?thesis
    proof (cases "tls_X509KeyPair env")
      case no_err: None
      with assms Inr perm None t2 show ?thesis
        by (simp add: Listen_trace_def Listen_def Let_def case_prod_beta)
    next
      case (Some err)
      with assms Inr perm None t2 show ?thesis
        by (simp add: Listen_trace_def Listen_def)
    qed
  qed
qed

theorem allocation_closed_exactly_once_witness:
  "count_list (Listen_trace (example_listen_env (Inr example_bundle) CtxCancelled WaitChClosed)
      example_config) AllocClose = 1
   \<and> count_list (Listen_trace
        (example_listen_env (Inr example_bundle)
           (ErrChReceives (Some (PlainError ''status 500''))) GraceTimerFires)
        example_config) AllocClose = 1
   \<and> count_list (Listen_trace
        (example_listen_env (Inl (PlainError ''status 403'')) CtxCancelled WaitChClosed)
        example_config) AllocClose = 1"
  using
    allocation_closed_exactly_once
      [of "example_listen_env (Inr example_bundle) CtxCancelled WaitChClosed"
          "''203.0.113.9:41000''" example_config]
    allocation_closed_exactly_once
      [of "example_listen_env (Inr example_bundle)
             (ErrChReceives (Some (PlainError ''status 500''))) GraceTimerFires"
          "''203.0.113.9:41000''" example_config]
    allocation_closed_exactly_once
      [of "example_listen_env (Inl (PlainError ''status 403'')) CtxCancelled WaitChClosed"
          "''203.0.113.9:41000''" example_config]
  by (simp add: example_listen_env_def)

text \<open>Before the allocation exists nothing closes it.\<close>

lemma no_allocation_no_close:
  assumes "client_Listen env \<noteq> None \<or> (\<exists>err. client_AllocateTCP env = Inl err)"
  shows "count_list (Listen_trace env cfg) AllocClose = 0"
proof (cases "client_Listen env")
  case None
  with assms obtain err where "client_AllocateTCP env = Inl err" by auto
  with None show ?thesis by (simp add: Listen_trace_def Listen_def)
next
  case (Some err)
  then show ?thesis by (simp add: Listen_trace_def Listen_def)
qed

text \<open>
  The main goroutine closes the shutdown channel before it starts to wait, and after the
  wait it does nothing but return.
\<close>

lemma shutdown_signal_precedes_grace_wait:
  "snd (shutdown_sequence env) =
     (case main_select env of
        CtxCancelled \<Rightarrow> [LogInfo ''Shutting down gateway...'']
      | ErrChReceives v \<Rightarrow> [])
     @ [CloseShutdownCh, GoWaitGroupWaiter]
     @ (case grace_select env of
          WaitChClosed \<Rightarrow> []
        | GraceTimerFires \<Rightarrow> [LogWarn ''Timeout waiting for connections to close gracefully''])"
  by (simp add: shutdown_sequence_def Let_def split: main_event.splits)

subsection \<open>The accept deadline\<close>

lemma SetDeadline_handle_accepted: "SetDeadline d \<notin> set (snd (handle_accepted c))"
  by (simp add: handle_accepted_def Let_def split: option.splits sum.splits)

lemma SetDeadline_accept_error_log: "SetDeadline d \<notin> set (accept_error_log err)"
  by (simp add: accept_error_log_def)

text \<open>An iteration sets the deadline exactly when the type assertion succeeds.\<close>

lemma SetDeadline_in_iter:
  "SetDeadline d \<in> set (snd (accept_iter relayConn ev)) \<longleftrightarrow> is_TCPListener relayConn \<and> d = 1"
proof (cases ev)
  case (AcceptReturns r)
  then show ?thesis
    using SetDeadline_handle_accepted [of d] SetDeadline_accept_error_log [of d]
    by (cases r) (auto simp: set_accept_deadline_def case_prod_beta)
qed (auto simp: set_accept_deadline_def)

lemma SetDeadline_in_loop:
  "SetDeadline d \<in> set (snd (accept_loop relayConn evs)) \<Longrightarrow> is_TCPListener relayConn"
proof (induction evs)
  case Nil
  then show ?case by simp
next
  case (Cons ev evs)
  then show ?case
    using SetDeadline_in_iter [of d relayConn ev]
    by (cases "accept_iter relayConn ev")
       (auto split: iter_outcome.splits prod.splits)
qed

text \<open>The listener that \<^verbatim>\<open>Listen\<close> gives to its accept loop is the TLS listener.\<close>

lemma Listen_accept_loop_listener:
  assumes "GoAcceptLoop relayConn \<in> set (Listen_trace env cfg)"
  shows "\<exists>addr. client_AllocateTCP env = Inr addr \<and> relayConn = TLSListener (TCPAllocation addr)"
  using assms
  by (auto simp: Listen_trace_def Listen_def static_ip_permissions_def shutdown_sequence_def
      deferred_all_def deferred_client_def tls_NewListener_def Let_def case_prod_beta
      split: option.splits sum.splits if_splits main_event.splits grace_event.splits)

text \<open>
  C8. Every iteration of the accept loop should set a deadline of one second on the
  listener before it accepts. The loop that \<^verbatim>\<open>Listen\<close> starts never sets one: its
  listener is the value of \<^verbatim>\<open>tls.NewListener\<close>, for which the type assertion to
  \<^verbatim>\<open>*net.TCPListener\<close> fails, so \<^verbatim>\<open>SetDeadline\<close> is skipped in every iteration.
\<close>

theorem accept_deadline_never_set:
  assumes "GoAcceptLoop relayConn \<in> set (Listen_trace env cfg)"
  shows "SetDeadline d \<notin> set (snd (accept_loop relayConn evs))"
  using Listen_accept_loop_listener [OF assms] SetDeadline_in_loop [of d relayConn evs]
  by auto

theorem accept_deadline_never_set_witness:
  "GoAcceptLoop example_listener
     \<in> set (Listen_trace (example_listen_env (Inr example_bundle) CtxCancelled WaitChClosed)
          example_config)
   \<and> SetDeadline 1 \<notin> set (snd (accept_loop example_listener
        [AcceptReturns (Inl (PlainError ''connection reset'')), CtxDone]))
   \<and> accept_loop example_listener
        [AcceptReturns (Inl (PlainError ''connection reset'')), CtxDone]
      = (Returned, [Accept, LogError ''Failed to accept connection: connection reset''])"
proof -
  have spawned: "GoAcceptLoop example_listener
     \<in> set (Listen_trace (example_listen_env (Inr example_bundle) CtxCancelled WaitChClosed)
          example_config)"
    by (simp add: Listen_trace_def Listen_def example_listen_env_def example_config_def
        example_listener_def static_ip_permissions_def shutdown_sequence_def
        tls_NewListener_def Let_def)
  have run: "accept_loop example_listener
        [AcceptReturns (Inl (PlainError ''connection reset'')), CtxDone]
      = (Returned, [Accept, LogError ''Failed to accept connection: connection reset''])"
    by (simp add: example_listener_def set_accept_deadline_def accept_error_log_def)
  from spawned run
    accept_deadline_never_set [OF spawned, of 1
      "[AcceptReturns (Inl (PlainError ''connection reset'')), CtxDone]"]
  show ?thesis by simp
qed

section \<open>Properties of \<^verbatim>\<open>ConnectWithRelay\<close>\<close>

lemma Split_no_sep: "sep \<notin> set s \<Longrightarrow> Split s sep = [s]"
  by (induction s) auto

text \<open>An address \<open>host:port\<close> with no further colon splits into the host and the port.\<close>

lemma Split_host_port:
  "sep \<notin> set host \<Longrightarrow> sep \<notin> set port \<Longrightarrow> Split (host @ sep # port) sep = [host, port]"
  by (induction host) (auto simp: Split_no_sep)

lemma dials_Nil [simp]: "dials [] = []"
  by (simp add: dials_def)

lemma dials_Cons [simp]:
  "dials (a # acts) =
     (case a of TlsDial address name \<Rightarrow> [a] | ResolveTCPAddr address \<Rightarrow> [a]
        | DialTCP peerAddr \<Rightarrow> [a] | _ \<Rightarrow> []) @ dials acts"
  by (cases a) (simp_all add: dials_def)

lemma dials_append [simp]: "dials (xs @ ys) = dials xs @ dials ys"
  by (simp add: dials_def)

text \<open>
  C9 as stated, refuted: the address \<open>[::1]:5349\<close> has the form host:port with port
  5349, but line 133 splits it at every colon and takes the second piece, the empty text,
  for the port; \<^verbatim>\<open>ConnectWithRelay\<close> takes the plain TCP path and never dials with TLS.
\<close>

theorem bracketed_ipv6_port_5349_dials_plain_tcp:
  "Split ''[::1]:5349'' CHR '':'' = [''['', [], ''1]'', ''5349'']
   \<and> dials (Connect_trace
        ((example_connect_env ''[::1]:5349'' (Inr 1) (Inr 2))
           \<lparr>net_ResolveTCPAddr := Inr ''[::1]:5349''\<rparr>)
        example_gateway)
     = [ResolveTCPAddr ''[::1]:5349'', DialTCP ''[::1]:5349'']"
  by (simp add: Connect_trace_def ConnectWithRelay_def example_connect_env_def
      example_details_def dial_turn_server_def index_def Let_def)

text \<open>
  C9, amended. For a relay address \<open>host:port\<close> in which neither the host nor the port
  holds a colon (the shape that line 133 takes apart), \<^verbatim>\<open>ConnectWithRelay\<close> dials with
  TLS, once, exactly when the port is \<open>5349\<close>; for any other port it takes the plain
  TCP path, which resolves the address and then dials it with \<^verbatim>\<open>net.DialTCP\<close>, and
  never dials with TLS.
\<close>

theorem tls_dial_exactly_on_port_5349:
  assumes "CHR '':'' \<notin> set host" and "CHR '':'' \<notin> set port"
    and "CallRegisterGatewayIdentityV1 env = Inr relayDetails"
    and "relay_TurnServerAddress relayDetails = host @ '':'' @ port"
  shows "dials (Connect_trace env g) =
     (if port = ''5349'' then [TlsDial (host @ '':'' @ port) host]
      else ResolveTCPAddr (host @ '':'' @ port) #
           (case net_ResolveTCPAddr env of
              Inl err \<Rightarrow> []
            | Inr peerAddr \<Rightarrow> [DialTCP peerAddr]))"
proof -
  have parts: "Split (host @ '':'' @ port) CHR '':'' = [host, port]"
    using assms(1,2) Split_host_port [of "CHR '':''" host port] by simp
  show ?thesis
    using assms(3,4) parts
    by (auto simp: Connect_trace_def ConnectWithRelay_def dial_turn_server_def index_def
        Let_def case_prod_beta split: sum.splits option.splits)
qed

theorem tls_dial_exactly_on_port_5349_witness:
  "dials (Connect_trace (example_connect_env ''relay.example:5349'' (Inr 1) (Inr 2))
      example_gateway) = [TlsDial ''relay.example:5349'' ''relay.example'']
   \<and> dials (Connect_trace (example_connect_env ''relay.example:3478'' (Inr 1) (Inr 2))
      example_gateway)
     = [ResolveTCPAddr ''relay.example:3478'', DialTCP ''198.51.100.7:3478'']"
  using
    tls_dial_exactly_on_port_5349
      [of "''relay.example''" "''5349''"
          "example_connect_env ''relay.example:5349'' (Inr 1) (Inr 2)"
          "example_details ''relay.example:5349''" example_gateway]
    tls_dial_exactly_on_port_5349
      [of "''relay.example''" "''3478''"
          "example_connect_env ''relay.example:3478'' (Inr 1) (Inr 2)"
          "example_details ''relay.example:3478''" example_gateway]
  by (simp add: example_connect_env_def example_details_def)

text \<open>On the TLS path a failed dial is returned as the connection error, after one dial.\<close>

lemma tls_dial_failure_returned:
  assumes "CHR '':'' \<notin> set host"
    and "CallRegisterGatewayIdentityV1 env = Inr relayDetails"
    and "relay_TurnServerAddress relayDetails = host @ '':5349''"
    and "tls_Dial env = Inl e"
  shows "Connect_result env g
      = Inr (Some (Errorf_w ''Failed to connect with relay server: '' e))"
    and "dials (Connect_trace env g) = [TlsDial (host @ '':5349'') host]"
proof -
  have parts: "Split (host @ '':5349'') CHR '':'' = [host, ''5349'']"
    using assms(1) Split_host_port [of "CHR '':''" host "''5349''"] by simp
  show "Connect_result env g
      = Inr (Some (Errorf_w ''Failed to connect with relay server: '' e))"
    using assms(2-4) parts
    by (simp add: Connect_result_def ConnectWithRelay_def dial_turn_server_def index_def)
  show "dials (Connect_trace env g) = [TlsDial (host @ '':5349'') host]"
    using assms(2-4) parts
    by (simp add: Connect_trace_def ConnectWithRelay_def dial_turn_server_def index_def)
qed

text \<open>
  C5. A failed dial of the relay should come back to the caller as the connection error,
  on the TLS path and on the plain TCP path. On the plain TCP path it does not: the error
  of \<^verbatim>\<open>net.DialTCP\<close> goes to the \<^verbatim>\<open>err\<close> declared inside the \<^verbatim>\<open>else\<close> block, the
  test after the block reads the \<^verbatim>\<open>err\<close> of the function body, which is nil, and
  \<^verbatim>\<open>ConnectWithRelay\<close> goes on to build the TURN client on the nil connection. What it
  returns is what the client constructor decides: nil when the client is created.
\<close>

theorem tcp_dial_failure_not_returned:
  assumes "CHR '':'' \<notin> set host" and "CHR '':'' \<notin> set port" and "port \<noteq> ''5349''"
    and "CallRegisterGatewayIdentityV1 env = Inr relayDetails"
    and "relay_TurnServerAddress relayDetails = host @ '':'' @ port"
    and "net_ResolveTCPAddr env = Inr peerAddr"
    and "net_DialTCP env = Inl e"
  shows "Connect_result env g =
     (case turn_NewClient env of
        Inl e' \<Rightarrow> Inr (Some (Errorf_w ''Failed to create relay client: '' e'))
      | Inr cl \<Rightarrow> Inr None)
    \<and> Connect_result env g
        \<noteq> Inr (Some (Errorf_w ''Failed to connect with relay server: '' e))
    \<and> dials (Connect_trace env g) = [ResolveTCPAddr (host @ '':'' @ port), DialTCP peerAddr]"
proof -
  have parts: "Split (host @ '':'' @ port) CHR '':'' = [host, port]"
    using assms(1,2) Split_host_port [of "CHR '':''" host port] by simp
  have res: "Connect_result env g =
     (case turn_NewClient env of
        Inl e' \<Rightarrow> Inr (Some (Errorf_w ''Failed to create relay client: '' e'))
      | Inr cl \<Rightarrow> Inr None)"
    using assms(3-7) parts
    by (simp add: Connect_result_def ConnectWithRelay_def dial_turn_server_def index_def
        split: sum.splits)
  have neq: "Connect_result env g
        \<noteq> Inr (Some (Errorf_w ''Failed to connect with relay server: '' e))"
    unfolding res by (simp add: Errorf_w_def split: sum.splits)
  have tr: "dials (Connect_trace env g)
      = [ResolveTCPAddr (host @ '':'' @ port), DialTCP peerAddr]"
    using assms(3-7) parts
    by (auto simp: Connect_trace_def ConnectWithRelay_def dial_turn_server_def index_def
        Let_def split: sum.splits)
  from res neq tr show ?thesis by simp
qed

theorem tcp_dial_failure_not_returned_witness:
  "ConnectWithRelay
     (example_connect_env ''relay.example:3478'' (Inr 1)
        (Inl (PlainError ''dial tcp 198.51.100.7:3478: connect: connection refused'')))
     example_gateway
   = (Inr None,
      [CallRegisterGatewayIdentity,
       LogInfo ''Provided relay port 3478. Using non TLS connection.'',
       ResolveTCPAddr ''relay.example:3478'', DialTCP ''198.51.100.7:3478'', NewClient None],
      example_gateway
        \<lparr>config := session_config (example_details ''relay.example:3478''),
         client := Some 1\<rparr>)
   \<and> Connect_result
       (example_connect_env ''relay.example:3478'' (Inr 1)
          (Inl (PlainError ''dial tcp 198.51.100.7:3478: connect: connection refused'')))
       example_gateway = Inr None"
  using tcp_dial_failure_not_returned
    [of "''relay.example''" "''3478''"
        "example_connect_env ''relay.example:3478'' (Inr 1)
           (Inl (PlainError ''dial tcp 198.51.100.7:3478: connect: connection refused''))"
        "example_details ''relay.example:3478''" "''198.51.100.7:3478''"
        "PlainError ''dial tcp 198.51.100.7:3478: connect: connection refused''"
        example_gateway]
  by (simp add: ConnectWithRelay_def example_connect_env_def example_details_def
      dial_turn_server_def index_def Let_def)

section \<open>Properties of the heartbeat\<close>

lemma pushed_errors_append [simp]:
  "pushed_errors (xs @ ys) = pushed_errors xs @ pushed_errors ys"
  by (induction xs rule: pushed_errors.induct) simp_all

lemma heartbeat_loop_pushes: "pushed_errors (snd (heartbeat_loop evs)) = tick_failures evs"
  by (induction evs rule: tick_failures.induct) (simp_all add: case_prod_beta)

lemma heartbeat_loop_calls:
  "count_list (snd (heartbeat_loop evs)) CallGatewayHeartBeat = ticks_seen evs"
  by (induction evs rule: ticks_seen.induct) (simp_all add: case_prod_beta)

lemma heartbeat_loop_logs: "error_logs (snd (heartbeat_loop evs)) = []"
  by (induction evs rule: ticks_seen.induct) (simp_all add: case_prod_beta)

text \<open>At a tick the result of the call is sent as it is, the nil of a call that succeeded too.\<close>

lemma tick_sends_result:
  "snd (heartbeat_loop (TickerFires r # evs)) =
     [LogInfo ''Registering heart beat'', CallGatewayHeartBeat, SendErrCh r]
       @ snd (heartbeat_loop evs)"
  by (simp add: case_prod_beta)

text \<open>Whatever the main goroutine receives on the error channel, it shuts down and returns it.\<close>

lemma error_channel_value_shuts_down:
  assumes "client_Listen env = None" and "client_AllocateTCP env = Inr addr"
    and "CallExchangeRelayCertV1 env = Inr gatewayCert"
    and "fst (static_ip_permissions env (InfisicalStaticIp cfg)) = None"
    and "tls_X509KeyPair env = None"
    and "main_select env = ErrChReceives v"
  shows "CloseShutdownCh \<in> set (Listen_trace env cfg)" and "Listen_result env cfg = v"
proof -
  obtain t2 where perm: "static_ip_permissions env (InfisicalStaticIp cfg) = (None, t2)"
    using assms(4) by (cases "static_ip_permissions env (InfisicalStaticIp cfg)") simp
  show "CloseShutdownCh \<in> set (Listen_trace env cfg)"
    using assms perm
    by (simp add: Listen_trace_def Listen_def shutdown_sequence_def Let_def case_prod_beta)
  show "Listen_result env cfg = v"
    using assms perm
    by (simp add: Listen_result_def Listen_def shutdown_sequence_def Let_def case_prod_beta)
qed

text \<open>
  C3 as stated, refuted: the heartbeat call made after the initial delay fails, the failure
  is logged, and nothing is sent on the error channel before the goroutine returns.
\<close>

theorem first_heartbeat_failure_not_pushed:
  "registerHeartBeat (Some (PlainError ''status 500'')) [DoneClosed] =
     (Returned,
      [NewTicker 3600, Sleep 10, LogInfo ''Registering first heart beat'', CallGatewayHeartBeat,
       LogError ''Failed to register heartbeat: status 500'', TickerStop])
   \<and> pushed_errors (snd (registerHeartBeat (Some (PlainError ''status 500'')) [DoneClosed])) = []"
  by (simp add: registerHeartBeat_def)

text \<open>
  C3, amended. The heartbeat task sleeps 10 seconds and calls the heartbeat operation; a
  failure of this first call is logged and not sent. At every tick of its hourly ticker it
  calls the operation once more, and the errors sent on the error channel are exactly the
  errors of the calls made at the ticks, in their order. The main goroutine treats whatever
  it receives on that channel as the trigger of the shutdown: it closes the shutdown channel
  and returns the received value.
\<close>

theorem interval_heartbeat_failures_pushed:
  "take 4 (snd (registerHeartBeat first evs)) =
     [NewTicker 3600, Sleep 10, LogInfo ''Registering first heart beat'', CallGatewayHeartBeat]
   \<and> error_logs (snd (registerHeartBeat first evs)) =
       (case first of
          None \<Rightarrow> []
        | Some err \<Rightarrow> [LogError (''Failed to register heartbeat: '' @ Error_msg err)])
   \<and> count_list (snd (registerHeartBeat first evs)) CallGatewayHeartBeat = Suc (ticks_seen evs)
   \<and> pushed_errors (snd (registerHeartBeat first evs)) = tick_failures evs
   \<and> (client_Listen env = None \<and> client_AllocateTCP env = Inr addr
        \<and> CallExchangeRelayCertV1 env = Inr gatewayCert
        \<and> fst (static_ip_permissions env (InfisicalStaticIp cfg)) = None
        \<and> tls_X509KeyPair env = None \<and> main_select env = ErrChReceives v
      \<longrightarrow> CloseShutdownCh \<in> set (Listen_trace env cfg) \<and> Listen_result env cfg = v)"
proof -
  have a: "take 4 (snd (registerHeartBeat first evs)) =
     [NewTicker 3600, Sleep 10, LogInfo ''Registering first heart beat'', CallGatewayHeartBeat]"
    by (simp add: registerHeartBeat_def case_prod_beta)
  have b: "error_logs (snd (registerHeartBeat first evs)) =
       (case first of
          None \<Rightarrow> []
        | Some err \<Rightarrow> [LogError (''Failed to register heartbeat: '' @ Error_msg err)])"
    by (simp add: registerHeartBeat_def case_prod_beta heartbeat_loop_logs split: option.splits)
  have c: "count_list (snd (registerHeartBeat first evs)) CallGatewayHeartBeat
      = Suc (ticks_seen evs)"
    by (simp add: registerHeartBeat_def case_prod_beta heartbeat_loop_calls split: option.splits)
  have d: "pushed_errors (snd (registerHeartBeat first evs)) = tick_failures evs"
    by (simp add: registerHeartBeat_def case_prod_beta heartbeat_loop_pushes split: option.splits)
  from a b c d error_channel_value_shuts_down [of env addr gatewayCert cfg v]
  show ?thesis by blast
qed

theorem interval_heartbeat_failures_pushed_witness:
  "registerHeartBeat (Some (PlainError ''status 500''))
      [TickerFires (Some (PlainError ''status 503'')), DoneClosed]
     = (Returned,
        [NewTicker 3600, Sleep 10, LogInfo ''Registering first heart beat'',
         CallGatewayHeartBeat, LogError ''Failed to register heartbeat: status 500'',
         LogInfo ''Registering heart beat'', CallGatewayHeartBeat,
         SendErrCh (Some (PlainError ''status 503'')), TickerStop])
   \<and> pushed_errors (snd (registerHeartBeat (Some (PlainError ''status 500''))
      [TickerFires (Some (PlainError ''status 503'')), DoneClosed])) = [PlainError ''status 503'']
   \<and> CloseShutdownCh \<in> set (Listen_trace
        (example_listen_env (Inr example_bundle)
           (ErrChReceives (Some (PlainError ''status 503''))) WaitChClosed)
        example_config)
   \<and> Listen_result
        (example_listen_env (Inr example_bundle)
           (ErrChReceives (Some (PlainError ''status 503''))) WaitChClosed)
        example_config = Some (PlainError ''status 503'')"
  using interval_heartbeat_failures_pushed
    [of "Some (PlainError ''status 500'')"
        "[TickerFires (Some (PlainError ''status 503'')), DoneClosed]"
        "example_listen_env (Inr example_bundle)
           (ErrChReceives (Some (PlainError ''status 503''))) WaitChClosed"
        "''203.0.113.9:41000''" example_bundle example_config
        "Some (PlainError ''status 503'')"]
  by (simp add: example_listen_env_def example_config_def static_ip_permissions_def
      registerHeartBeat_def)

end
